theory Spec2Isabelle
  imports Main
begin

section \<open>The relational store behind the shared connection\<close>

text \<open>
  \<^verbatim>\<open>bank.py\<close> keeps no data of its own: every page talks to one SQLite connection
  (\<^verbatim>\<open>conn = get_connection()\<close>). The store is therefore modelled explicitly: named tables
  with a column list, an optional primary-key column and positional rows.

  Values are SQLite's storage classes NULL, INTEGER and TEXT. Dates are ISO-8601 text, as
  SQLite keeps them. REAL is left out (no claim below needs a floating-point value).
\<close>

datatype sqlval = Null | IntV int | TextV string

record table =
  tbl_columns :: "string list"
  tbl_primary_key :: "string option"
  tbl_rows :: "sqlval list list"

type_synonym store = "string \<rightharpoonup> table"

text \<open>
  The store's clock: the current UTC date as a day number, counted from 1970-01-01.
  \<^verbatim>\<open>DATE('now', 'n days')\<close> is the ISO-8601 text of the day \<open>n\<close> days from it, in the
  proleptic Gregorian calendar (years 0000 to 9999).
\<close>

type_synonym clock = int

fun show_nat :: "nat \<Rightarrow> string" where
  "show_nat n =
     (if n < 10 then [char_of (48 + n)]
      else show_nat (n div 10) @ [char_of (48 + n mod 10)])"

declare show_nat.simps [simp del]

definition digit :: "int \<Rightarrow> char" where
  "digit n = ''0123456789'' ! nat (n mod 10)"

definition two_digits :: "int \<Rightarrow> string" where
  "two_digits n = [digit (n div 10), digit n]"

definition four_digits :: "int \<Rightarrow> string" where
  "four_digits n = [digit (n div 1000), digit (n div 100), digit (n div 10), digit n]"

definition civil_from_days :: "int \<Rightarrow> int \<times> int \<times> int" where
  "civil_from_days z =
     (let z' = z + 719468;
          era = z' div 146097;
          doe = z' - era * 146097;
          yoe = (doe - doe div 1460 + doe div 36524 - doe div 146096) div 365;
          doy = doe - (365 * yoe + yoe div 4 - yoe div 100);
          mp = (5 * doy + 2) div 153;
          d = doy - (153 * mp + 2) div 5 + 1;
          m = (if mp < 10 then mp + 3 else mp - 9);
          y = yoe + era * 400 + (if m \<le> 2 then 1 else 0)
      in (y, m, d))"

definition iso_date :: "int \<Rightarrow> string" where
  "iso_date z =
     (case civil_from_days z of
        (y, m, d) \<Rightarrow> four_digits y @ ''-'' @ two_digits m @ ''-'' @ two_digits d)"

text \<open>
  The exceptions that can reach the program: the driver's \<^verbatim>\<open>sqlite3.OperationalError\<close>,
  \<^verbatim>\<open>sqlite3.IntegrityError\<close> and \<^verbatim>\<open>sqlite3.ProgrammingError\<close>, and Python's
  \<^verbatim>\<open>KeyError\<close> for a dictionary subscript. All of them are subclasses of
  \<^verbatim>\<open>Exception\<close>.
\<close>

datatype exn =
    OperationalError string
  | IntegrityError string
  | ProgrammingError string
  | KeyError string

fun str_exn :: "exn \<Rightarrow> string" where
  "str_exn (OperationalError m) = m"
| "str_exn (IntegrityError m) = m"
| "str_exn (ProgrammingError m) = m"
| "str_exn (KeyError k) = [CHR 0x27] @ k @ [CHR 0x27]"

subsection \<open>Statements\<close>

text \<open>
  The program hands SQLite the text of its statements. The store model works on their
  abstract syntax, for the statement shapes the properties below are about: positional
  placeholders (\<^verbatim>\<open>?\<close>), \<^verbatim>\<open>DATE('now', 'n days')\<close>, comparisons joined by
  \<^verbatim>\<open>AND\<close>, a plain \<^verbatim>\<open>SELECT *\<close>, a one-key \<^verbatim>\<open>GROUP BY\<close> with one aggregate ordered by
  that aggregate descending, and the three single-table writes. Joins, \<^verbatim>\<open>LIMIT\<close>,
  \<^verbatim>\<open>AVG\<close> and the other date functions of the catalog are outside it.
\<close>

datatype expr = Col string | Param nat | Lit sqlval | Date_now int

datatype cmp_op = Eq | Lt | Ge

datatype cond = Cmp cmp_op expr expr | And cond cond

datatype agg = Sum_of string | Count_star

datatype query =
    Select_star string "cond option"
  | Select_agg_desc string "cond option" string agg string

datatype dml =
    Insert_values string "expr list"
  | Update_set string string expr cond
  | Delete_from string cond

fun expr_columns :: "expr \<Rightarrow> string list" where
  "expr_columns (Col c) = [c]"
| "expr_columns (Param i) = []"
| "expr_columns (Lit v) = []"
| "expr_columns (Date_now n) = []"

fun cond_columns :: "cond \<Rightarrow> string list" where
  "cond_columns (Cmp opr a b) = expr_columns a @ expr_columns b"
| "cond_columns (And p q) = cond_columns p @ cond_columns q"

fun expr_params :: "expr \<Rightarrow> nat" where
  "expr_params (Param i) = 1"
| "expr_params (Col c) = 0"
| "expr_params (Lit v) = 0"
| "expr_params (Date_now n) = 0"

fun cond_params :: "cond \<Rightarrow> nat" where
  "cond_params (Cmp opr a b) = expr_params a + expr_params b"
| "cond_params (And p q) = cond_params p + cond_params q"

fun where_columns :: "cond option \<Rightarrow> string list" where
  "where_columns None = []"
| "where_columns (Some c) = cond_columns c"

fun where_params :: "cond option \<Rightarrow> nat" where
  "where_params None = 0"
| "where_params (Some c) = cond_params c"

fun agg_columns :: "agg \<Rightarrow> string list" where
  "agg_columns (Sum_of c) = [c]"
| "agg_columns Count_star = []"

subsection \<open>Evaluation of expressions and conditions\<close>

text \<open>
  Columns are found by their exact name, and values are compared as they are stored:
  SQLite's case-insensitive column names and the conversions of column type affinity are
  not modelled.
\<close>

fun col_index :: "string list \<Rightarrow> string \<Rightarrow> nat option" where
  "col_index [] c = None"
| "col_index (x # xs) c =
     (if x = c then Some 0 else map_option Suc (col_index xs c))"

text \<open>A field read past the end of a stored record is NULL, never an unspecified value.\<close>

fun cell :: "sqlval list \<Rightarrow> nat \<Rightarrow> sqlval" where
  "cell [] i = Null"
| "cell (v # vs) 0 = v"
| "cell (v # vs) (Suc i) = cell vs i"

definition field :: "string list \<Rightarrow> sqlval list \<Rightarrow> string \<Rightarrow> sqlval" where
  "field cols r c = (case col_index cols c of None \<Rightarrow> Null | Some i \<Rightarrow> cell r i)"

fun eval_expr :: "clock \<Rightarrow> sqlval list \<Rightarrow> string list \<Rightarrow> sqlval list \<Rightarrow> expr \<Rightarrow> sqlval" where
  "eval_expr clk ps cols r (Col c) = field cols r c"
| "eval_expr clk ps cols r (Param i) = cell ps i"
| "eval_expr clk ps cols r (Lit v) = v"
| "eval_expr clk ps cols r (Date_now n) = TextV (iso_date (clk + n))"

text \<open>Text is compared bytewise (SQLite's default BINARY collation).\<close>

fun str_less :: "string \<Rightarrow> string \<Rightarrow> bool" where
  "str_less [] [] = False"
| "str_less [] (y # ys) = True"
| "str_less (x # xs) [] = False"
| "str_less (x # xs) (y # ys) =
     (if (of_char x :: nat) < of_char y then True
      else if (of_char y :: nat) < of_char x then False
      else str_less xs ys)"

text \<open>Across storage classes an INTEGER sorts before any TEXT.\<close>

fun sql_less :: "sqlval \<Rightarrow> sqlval \<Rightarrow> bool" where
  "sql_less (IntV a) (IntV b) = (a < b)"
| "sql_less (IntV a) (TextV t) = True"
| "sql_less (TextV s) (IntV b) = False"
| "sql_less (TextV s) (TextV t) = str_less s t"
| "sql_less Null b = False"
| "sql_less a Null = False"

text \<open>
  A comparison with a NULL operand is not true. The conditions here are conjunctions, so a
  row passes \<^verbatim>\<open>WHERE\<close> exactly when every comparison is true.
\<close>

fun compare_vals :: "cmp_op \<Rightarrow> sqlval \<Rightarrow> sqlval \<Rightarrow> bool" where
  "compare_vals opr a b =
     (if a = Null \<or> b = Null then False
      else (case opr of Eq \<Rightarrow> a = b | Lt \<Rightarrow> sql_less a b | Ge \<Rightarrow> \<not> sql_less a b))"

fun holds :: "clock \<Rightarrow> sqlval list \<Rightarrow> string list \<Rightarrow> cond \<Rightarrow> sqlval list \<Rightarrow> bool" where
  "holds clk ps cols (Cmp opr a b) r =
     compare_vals opr (eval_expr clk ps cols r a) (eval_expr clk ps cols r b)"
| "holds clk ps cols (And p q) r = (holds clk ps cols p r \<and> holds clk ps cols q r)"

fun passes :: "clock \<Rightarrow> sqlval list \<Rightarrow> string list \<Rightarrow> cond option \<Rightarrow> sqlval list \<Rightarrow> bool" where
  "passes clk ps cols None r = True"
| "passes clk ps cols (Some c) r = holds clk ps cols c r"

subsection \<open>Reading: what the driver returns for a query\<close>

text \<open>The result shape: pandas' \<^verbatim>\<open>DataFrame\<close>, ordered column names and ordered rows.\<close>

record dataframe =
  df_columns :: "string list"
  df_rows :: "sqlval list list"

text \<open>\<^verbatim>\<open>pd.DataFrame()\<close>: no columns, no rows.\<close>

definition empty_dataframe :: dataframe where
  "empty_dataframe = \<lparr>df_columns = [], df_rows = []\<rparr>"

definition no_such_table :: "string \<Rightarrow> exn" where
  "no_such_table t = OperationalError (''no such table: '' @ t)"

definition no_such_column :: "string \<Rightarrow> exn" where
  "no_such_column c = OperationalError (''no such column: '' @ c)"

definition wrong_bindings :: exn where
  "wrong_bindings = ProgrammingError ''Incorrect number of bindings supplied.''"

text \<open>The first referenced column that the table does not have, if any.\<close>

fun missing_column :: "string list \<Rightarrow> string list \<Rightarrow> string option" where
  "missing_column cols [] = None"
| "missing_column cols (c # cs) =
     (if c \<in> set cols then missing_column cols cs else Some c)"

text \<open>Group keys in order of first appearance.\<close>

fun first_seen :: "'a list \<Rightarrow> 'a list" where
  "first_seen [] = []"
| "first_seen (x # xs) = x # first_seen (filter (\<lambda>y. y \<noteq> x) xs)"

text \<open>
  \<^verbatim>\<open>SUM\<close> adds the integers of a group and is NULL when there is none;
  \<^verbatim>\<open>COUNT(*)\<close> counts the rows of the group. An amount stored as text is passed over
  (SQLite would read it as a number and answer with a REAL).
\<close>

fun int_values :: "sqlval list \<Rightarrow> int list" where
  "int_values [] = []"
| "int_values (IntV i # vs) = i # int_values vs"
| "int_values (v # vs) = int_values vs"

fun aggregate :: "agg \<Rightarrow> string list \<Rightarrow> sqlval list list \<Rightarrow> sqlval" where
  "aggregate (Sum_of c) cols grp =
     (case int_values (map (\<lambda>r. field cols r c) grp) of
        [] \<Rightarrow> Null
      | i # is \<Rightarrow> IntV (sum_list (i # is)))"
| "aggregate Count_star cols grp = IntV (int (length grp))"

text \<open>
  \<^verbatim>\<open>ORDER BY ... DESC\<close>: the larger aggregate first, NULL last. SQL leaves the order of
  rows with equal aggregates open; here they stay in the order their keys first appear.
\<close>

fun sort_less :: "sqlval \<Rightarrow> sqlval \<Rightarrow> bool" where
  "sort_less Null Null = False"
| "sort_less Null b = True"
| "sort_less a Null = False"
| "sort_less a b = sql_less a b"

fun insert_desc :: "sqlval list \<Rightarrow> sqlval list list \<Rightarrow> sqlval list list" where
  "insert_desc r [] = [r]"
| "insert_desc r (x # xs) =
     (if sort_less (cell x 1) (cell r 1) then r # x # xs else x # insert_desc r xs)"

definition sort_desc :: "sqlval list list \<Rightarrow> sqlval list list" where
  "sort_desc rs = foldl (\<lambda>acc r. insert_desc r acc) [] rs"

text \<open>
  \<^verbatim>\<open>pd.read_sql_query(query, conn, params=params)\<close> on the connection whose date
  function is \<open>clk\<close> and whose database is \<open>db\<close>. SQLite resolves the table and the
  columns when it prepares the statement, the driver then checks the number of bindings,
  and only then are rows produced. A read never changes the database.
\<close>

fun read_sql_query :: "clock \<Rightarrow> store \<Rightarrow> query \<Rightarrow> sqlval list option \<Rightarrow> exn + dataframe" where
  "read_sql_query clk db (Select_star t w) params =
     (case db t of
        None \<Rightarrow> Inl (no_such_table t)
      | Some tb \<Rightarrow>
          (case missing_column (tbl_columns tb) (where_columns w) of
             Some c \<Rightarrow> Inl (no_such_column c)
           | None \<Rightarrow>
               (let ps = (case params of None \<Rightarrow> [] | Some xs \<Rightarrow> xs) in
                if length ps \<noteq> where_params w then Inl wrong_bindings
                else Inr \<lparr>df_columns = tbl_columns tb,
                          df_rows = filter (passes clk ps (tbl_columns tb) w) (tbl_rows tb)\<rparr>)))"
| "read_sql_query clk db (Select_agg_desc t w g a alias) params =
     (case db t of
        None \<Rightarrow> Inl (no_such_table t)
      | Some tb \<Rightarrow>
          (case missing_column (tbl_columns tb) (g # agg_columns a @ where_columns w) of
             Some c \<Rightarrow> Inl (no_such_column c)
           | None \<Rightarrow>
               (let ps = (case params of None \<Rightarrow> [] | Some xs \<Rightarrow> xs) in
                if length ps \<noteq> where_params w then Inl wrong_bindings
                else
                  (let cols = tbl_columns tb;
                       kept = filter (passes clk ps cols w) (tbl_rows tb);
                       keys = first_seen (map (\<lambda>r. field cols r g) kept)
                   in Inr \<lparr>df_columns = [g, alias],
                            df_rows = sort_desc
                              (map (\<lambda>k. [k, aggregate a cols
                                             (filter (\<lambda>r. field cols r g = k) kept)]) keys)\<rparr>))))"

subsection \<open>Writing: what the driver does for a single-table write\<close>

definition wrong_arity :: "string \<Rightarrow> nat \<Rightarrow> nat \<Rightarrow> exn" where
  "wrong_arity t ncols nvals =
     OperationalError (''table '' @ t @ '' has '' @ show_nat ncols @ '' columns but ''
                       @ show_nat nvals @ '' values were supplied'')"

definition unique_failed :: "string \<Rightarrow> string \<Rightarrow> exn" where
  "unique_failed t k = IntegrityError (''UNIQUE constraint failed: '' @ t @ ''.'' @ k)"

text \<open>The non-NULL keys of a table; a primary key forbids two equal ones.\<close>

definition key_values :: "table \<Rightarrow> string \<Rightarrow> sqlval list list \<Rightarrow> sqlval list" where
  "key_values tb k rs = filter (\<lambda>v. v \<noteq> Null) (map (\<lambda>r. field (tbl_columns tb) r k) rs)"

text \<open>
  \<^verbatim>\<open>conn.execute(statement, params)\<close> for a write, on the connection whose date function
  is \<open>clk\<close> and whose database is \<open>db\<close>: the exception raised, or the cursor's row count and
  the database after the statement. A statement that raises leaves the database as it was.
\<close>

fun execute :: "clock \<Rightarrow> store \<Rightarrow> dml \<Rightarrow> sqlval list \<Rightarrow> exn + (nat \<times> store)" where
  "execute clk db (Insert_values t es) ps =
     (case db t of
        None \<Rightarrow> Inl (no_such_table t)
      | Some tb \<Rightarrow>
          if length es \<noteq> length (tbl_columns tb)
          then Inl (wrong_arity t (length (tbl_columns tb)) (length es))
          else (case missing_column [] (concat (map expr_columns es)) of
             Some c \<Rightarrow> Inl (no_such_column c)
           | None \<Rightarrow>
               if length ps \<noteq> sum_list (map expr_params es) then Inl wrong_bindings
               else
                 (let r = map (eval_expr clk ps [] []) es in
                  (case tbl_primary_key tb of
                     None \<Rightarrow> Inr (1, db(t \<mapsto> tb\<lparr>tbl_rows := tbl_rows tb @ [r]\<rparr>))
                   | Some k \<Rightarrow>
                       if field (tbl_columns tb) r k \<in> set (key_values tb k (tbl_rows tb))
                       then Inl (unique_failed t k)
                       else Inr (1, db(t \<mapsto> tb\<lparr>tbl_rows := tbl_rows tb @ [r]\<rparr>))))))"
| "execute clk db (Update_set t c e w) ps =
     (case db t of
        None \<Rightarrow> Inl (no_such_table t)
      | Some tb \<Rightarrow>
          (case missing_column (tbl_columns tb) (c # expr_columns e @ cond_columns w) of
             Some x \<Rightarrow> Inl (no_such_column x)
           | None \<Rightarrow>
               if length ps \<noteq> expr_params e + cond_params w then Inl wrong_bindings
               else
                 (let cols = tbl_columns tb;
                      rs = map (\<lambda>r. if holds clk ps cols w r
                                     then (case col_index cols c of
                                             None \<Rightarrow> r
                                           | Some i \<Rightarrow> r[i := eval_expr clk ps cols r e])
                                     else r) (tbl_rows tb)
                  in if tbl_primary_key tb = Some c \<and> \<not> distinct (key_values tb c rs)
                     then Inl (unique_failed t c)
                     else Inr (length (filter (holds clk ps cols w) (tbl_rows tb)),
                               db(t \<mapsto> tb\<lparr>tbl_rows := rs\<rparr>)))))"
| "execute clk db (Delete_from t w) ps =
     (case db t of
        None \<Rightarrow> Inl (no_such_table t)
      | Some tb \<Rightarrow>
          (case missing_column (tbl_columns tb) (cond_columns w) of
             Some x \<Rightarrow> Inl (no_such_column x)
           | None \<Rightarrow>
               if length ps \<noteq> cond_params w then Inl wrong_bindings
               else
                 (let cols = tbl_columns tb in
                  Inr (length (filter (holds clk ps cols w) (tbl_rows tb)),
                       db(t \<mapsto> tb\<lparr>tbl_rows :=
                            filter (\<lambda>r. \<not> holds clk ps cols w r) (tbl_rows tb)\<rparr>)))))"

text \<open>
  \<^verbatim>\<open>conn.commit()\<close>. Every write of the program is one statement followed at once by its
  commit on the one shared connection, and a failed statement changes nothing, so the
  connection's view and the committed database coincide wherever the program can observe
  them: commit is the identity on the modelled database.
\<close>

definition commit :: "store \<Rightarrow> store" where
  "commit db = db"

section \<open>The program\<close>

subsection \<open>What a page shows\<close>

datatype ui_event = St_error string | St_success string | St_dataframe dataframe

subsection \<open>\<^verbatim>\<open>run_query\<close>\<close>

text \<open>
  \<^verbatim>\<open>
  def run_query(query, params=None):
      try:
          if params:
              df = pd.read_sql_query(query, conn, params=params)
          else:
              df = pd.read_sql_query(query, conn)
          return df
      except Exception as e:
          st.error(f"SQL Error: {e}")
          return pd.DataFrame()
  \<close>
  The driver call on the shared connection is the parameter \<open>read_sql\<close>, so that the
  function is stated for whatever the driver does with the statement. An empty parameter
  list is falsy in Python and takes the branch without parameters. The outcome records the
  exception that leaves the function (none can: the handler catches every
  \<^verbatim>\<open>Exception\<close>), what was shown, and the frame returned.
\<close>

record query_outcome =
  q_escaped :: "exn option"
  q_shown :: "ui_event list"
  q_frame :: dataframe

definition truthy :: "'p list option \<Rightarrow> bool" where
  "truthy params = (case params of None \<Rightarrow> False | Some ps \<Rightarrow> ps \<noteq> [])"

definition run_query ::
  "('q \<Rightarrow> 'p list option \<Rightarrow> exn + dataframe) \<Rightarrow> 'q \<Rightarrow> 'p list option \<Rightarrow> query_outcome" where
  "run_query read_sql query params =
     (case (if truthy params then read_sql query params else read_sql query None) of
        Inr df \<Rightarrow> \<lparr>q_escaped = None, q_shown = [], q_frame = df\<rparr>
      | Inl e \<Rightarrow> \<lparr>q_escaped = None,
                  q_shown = [St_error (''SQL Error: '' @ str_exn e)],
                  q_frame = empty_dataframe\<rparr>)"

subsection \<open>The customer pages\<close>

text \<open>What pressing a button of the CRUD page does to the page and to the database.\<close>

record outcome =
  escaped :: "exn option"
  shown :: "ui_event list"
  database :: store

text \<open>
  \<^verbatim>\<open>
  if st.button("Add Customer"):
      try:
          conn.execute("INSERT INTO customers VALUES (?,?,?,?,?,?, DATE('now'))",
                       (cid, name, gender, age, city, account_type))
          conn.commit()
          st.success("Customer added successfully!")
      except Exception as e:
          st.error(e)
  \<close>
\<close>

definition insert_customer_sql :: dml where
  "insert_customer_sql =
     Insert_values ''customers''
       [Param 0, Param 1, Param 2, Param 3, Param 4, Param 5, Date_now 0]"

definition create_customer ::
  "clock \<Rightarrow> store \<Rightarrow> string \<Rightarrow> string \<Rightarrow> string \<Rightarrow> int \<Rightarrow> string \<Rightarrow> string \<Rightarrow> outcome" where
  "create_customer clk db cid name gender age city account_type =
     (case execute clk db insert_customer_sql
             [TextV cid, TextV name, TextV gender, IntV age, TextV city, TextV account_type] of
        Inr (n, db') \<Rightarrow>
          \<lparr>escaped = None, shown = [St_success ''Customer added successfully!''],
           database = commit db'\<rparr>
      | Inl e \<Rightarrow> \<lparr>escaped = None, shown = [St_error (str_exn e)], database = db\<rparr>)"

text \<open>
  \<^verbatim>\<open>
  if st.button("Update"):
      conn.execute("UPDATE customers SET city=? WHERE customer_id=?", (new_city, cid))
      conn.commit()
      st.success("Customer updated!")
  \<close>
  There is no handler here: an exception of the driver leaves the block. The cursor that
  \<^verbatim>\<open>conn.execute\<close> returns, and with it the row count, is dropped.
\<close>

definition update_customer_sql :: dml where
  "update_customer_sql =
     Update_set ''customers'' ''city'' (Param 0) (Cmp Eq (Col ''customer_id'') (Param 1))"

definition update_customer :: "clock \<Rightarrow> store \<Rightarrow> string \<Rightarrow> string \<Rightarrow> outcome" where
  "update_customer clk db cid new_city =
     (case execute clk db update_customer_sql [TextV new_city, TextV cid] of
        Inr (n, db') \<Rightarrow>
          \<lparr>escaped = None, shown = [St_success ''Customer updated!''], database = commit db'\<rparr>
      | Inl e \<Rightarrow> \<lparr>escaped = Some e, shown = [], database = db\<rparr>)"

text \<open>
  \<^verbatim>\<open>
  if st.button("Delete"):
      conn.execute("DELETE FROM customers WHERE customer_id=?", (cid,))
      conn.commit()
      st.success("Customer deleted!")
  \<close>
\<close>

definition delete_customer_sql :: dml where
  "delete_customer_sql = Delete_from ''customers'' (Cmp Eq (Col ''customer_id'') (Param 0))"

definition delete_customer :: "clock \<Rightarrow> store \<Rightarrow> string \<Rightarrow> outcome" where
  "delete_customer clk db cid =
     (case execute clk db delete_customer_sql [TextV cid] of
        Inr (n, db') \<Rightarrow>
          \<lparr>escaped = None, shown = [St_success ''Customer deleted!''], database = commit db'\<rparr>
      | Inl e \<Rightarrow> \<lparr>escaped = Some e, shown = [], database = db\<rparr>)"

text \<open>
  \<^verbatim>\<open>
  df = run_query("SELECT * FROM customers")
  st.dataframe(df)
  \<close>
  The Read action shows the whole table. \<^verbatim>\<open>run_query\<close> also takes parameters, so the
  same read can be narrowed to one identifier by the statement
  \<^verbatim>\<open>SELECT * FROM customers WHERE customer_id = ?\<close>.
\<close>

definition select_customers_sql :: query where
  "select_customers_sql = Select_star ''customers'' None"

definition select_customer_by_id_sql :: query where
  "select_customer_by_id_sql =
     Select_star ''customers'' (Some (Cmp Eq (Col ''customer_id'') (Param 0)))"

definition read_customers :: "clock \<Rightarrow> store \<Rightarrow> query_outcome" where
  "read_customers clk db = run_query (read_sql_query clk db) select_customers_sql None"

subsection \<open>The query catalog\<close>

text \<open>
  The dictionary \<^verbatim>\<open>queries\<close> of the SQLite Queries page: thirty labels, each with the
  text of its statement, written here byte for byte (UTF-8; \<open>NL\<close> is the line feed and
  \<open>SQ\<close> the single quote of the SQL text).
\<close>

abbreviation NL :: string where
  "NL \<equiv> [CHR 0x0A]"

abbreviation SQ :: string where
  "SQ \<equiv> [CHR 0x27]"

definition label_01 :: string where
  "label_01 =
     ''1. How many customers exist per city, and what is their average account balance?''"

definition sql_01 :: string where
  "sql_01 =
     ''SELECT city, COUNT(*) AS customers, '' @ NL
     @ ''               AVG(account_balance) AS avg_balance'' @ NL
     @ ''               FROM customers c'' @ NL
     @ ''               JOIN accounts a USING (customer_id)'' @ NL
     @ ''               GROUP BY city LIMIT 5;''"

definition label_02 :: string where
  "label_02 =
     ''2. Which account type holds the highest total balance?''"

definition sql_02 :: string where
  "sql_02 =
     ''SELECT '' @ NL
     @ ''               c.account_type,'' @ NL
     @ ''               SUM(a.account_balance) AS total_balance'' @ NL
     @ ''               FROM customers c'' @ NL
     @ ''               JOIN accounts a '' @ NL
     @ ''               ON c.customer_id = a.customer_id'' @ NL
     @ ''               GROUP BY c.account_type'' @ NL
     @ ''               ORDER BY total_balance DESC;''"

definition label_03 :: string where
  "label_03 =
     ''3. Top 10 customers by total balance across all accounts''"

definition sql_03 :: string where
  "sql_03 =
     ''SELECT '' @ NL
     @ ''               c.customer_id,'' @ NL
     @ ''               c.name,'' @ NL
     @ ''               c.city,'' @ NL
     @ ''               c.account_type,'' @ NL
     @ ''               SUM(a.account_balance) AS total_balance'' @ NL
     @ ''               FROM customers c'' @ NL
     @ ''               JOIN accounts a '' @ NL
     @ ''               ON c.customer_id = a.customer_id'' @ NL
     @ ''               GROUP BY c.customer_id, c.name, c.city, c.account_type'' @ NL
     @ ''               ORDER BY total_balance DESC'' @ NL
     @ ''               LIMIT 5;''"

definition label_04 :: string where
  "label_04 =
     ''4. Customers who opened accounts in 2023 with balance > '' @ [CHR 0xE2, CHR 0x82, CHR 0xB9] @ ''1,00,000''"

definition sql_04 :: string where
  "sql_04 =
     ''SELECT '' @ NL
     @ ''               c.customer_id,'' @ NL
     @ ''               c.name,'' @ NL
     @ ''               c.city,'' @ NL
     @ ''               c.account_type,'' @ NL
     @ ''               a.account_balance,'' @ NL
     @ ''               c.join_date'' @ NL
     @ ''               FROM customers c'' @ NL
     @ ''               JOIN accounts a '' @ NL
     @ ''               ON c.customer_id = a.customer_id'' @ NL
     @ ''               WHERE strftime('' @ SQ @ ''%Y'' @ SQ @ '', c.join_date) = '' @ SQ @ ''2023'' @ SQ @ NL
     @ ''               AND a.account_balance > 100000'' @ NL
     @ ''               ORDER BY a.account_balance DESC LIMIT 5;''"

definition label_05 :: string where
  "label_05 =
     ''5. Total transaction volume by transaction type''"

definition sql_05 :: string where
  "sql_05 =
     ''SELECT txn_type, SUM(amount) AS total_transaction_volume'' @ NL
     @ ''               FROM transactions'' @ NL
     @ ''               GROUP BY txn_type'' @ NL
     @ ''               ORDER BY total_transaction_volume DESC;''"

definition label_06 :: string where
  "label_06 =
     ''6. Accounts with more than 3 failed transactions in a month''"

definition sql_06 :: string where
  "sql_06 =
     ''SELECT customer_id,'' @ NL
     @ ''                strftime('' @ SQ @ ''%Y-%m'' @ SQ @ '', txn_time) AS txn_month,'' @ NL
     @ ''                COUNT(*) AS failed_txn_count'' @ NL
     @ ''               FROM transactions'' @ NL
     @ ''               WHERE status = '' @ SQ @ ''failed'' @ SQ @ NL
     @ ''               GROUP BY customer_id, txn_month'' @ NL
     @ ''               HAVING COUNT(*) > 2'' @ NL
     @ ''               ORDER BY failed_txn_count DESC LIMIT 5;''"

definition label_07 :: string where
  "label_07 =
     ''7. Top 5 branches by transaction volume (last 6 months)''"

definition sql_07 :: string where
  "sql_07 =
     ''SELECT b.Branch_Name,'' @ NL
     @ ''                SUM(t.amount) AS total_transaction_volume'' @ NL
     @ ''               FROM transactions t'' @ NL
     @ ''               JOIN customers c ON t.customer_id = c.customer_id'' @ NL
     @ ''               JOIN branches b ON c.city = b.City'' @ NL
     @ ''               WHERE t.txn_time >= strftime('' @ SQ @ ''%Y-%m-%d'' @ SQ @ '', '' @ SQ @ ''now'' @ SQ @ '', '' @ SQ @ ''-6 months'' @ SQ @ '')'' @ NL
     @ ''               GROUP BY b.Branch_Name'' @ NL
     @ ''               ORDER BY total_transaction_volume DESC LIMIT 5;''"

definition label_08 :: string where
  "label_08 =
     ''8. Accounts with 5+ high-value transactions ('' @ [CHR 0xE2, CHR 0x82, CHR 0xB9] @ ''95,000+)''"

definition sql_08 :: string where
  "sql_08 =
     ''SELECT customer_id, COUNT(txn_id) AS high_value_transaction_count'' @ NL
     @ ''               FROM transactions'' @ NL
     @ ''               WHERE amount >= 95000 AND status = '' @ SQ @ ''success'' @ SQ @ NL
     @ ''               GROUP BY customer_id'' @ NL
     @ ''               HAVING COUNT(txn_id) >= 5'' @ NL
     @ ''               ORDER BY high_value_transaction_count DESC LIMIT 5;''"

definition label_09 :: string where
  "label_09 =
     ''9. Avg loan amount & interest rate by loan type''"

definition sql_09 :: string where
  "sql_09 =
     ''SELECT Loan_Type,'' @ NL
     @ ''                      AVG(Loan_Amount) AS avg_loan_amount,'' @ NL
     @ ''                      AVG(Interest_Rate) AS avg_interest_rate'' @ NL
     @ ''               FROM loans'' @ NL
     @ ''               GROUP BY Loan_Type'' @ NL
     @ ''               ORDER BY avg_loan_amount DESC;''"

definition label_10 :: string where
  "label_10 =
     ''10. Customers holding more than one active loan''"

definition sql_10 :: string where
  "sql_10 =
     ''SELECT Customer_ID,'' @ NL
     @ ''                      COUNT(*) AS active_loans'' @ NL
     @ ''               FROM loans'' @ NL
     @ ''               WHERE Loan_Status IN ('' @ SQ @ ''Active'' @ SQ @ '', '' @ SQ @ ''Approved'' @ SQ @ '')'' @ NL
     @ ''               GROUP BY Customer_ID'' @ NL
     @ ''               HAVING COUNT(*) > 1'' @ NL
     @ ''               ORDER BY active_loans DESC LIMIT 5;''"

definition label_11 :: string where
  "label_11 =
     ''11. Top 5 customers with highest outstanding loan amount''"

definition sql_11 :: string where
  "sql_11 =
     ''SELECT Customer_ID,'' @ NL
     @ ''                      SUM(Loan_Amount) AS total_outstanding'' @ NL
     @ ''               FROM loans'' @ NL
     @ ''               WHERE Loan_Status != '' @ SQ @ ''Closed'' @ SQ @ NL
     @ ''               GROUP BY Customer_ID'' @ NL
     @ ''               ORDER BY total_outstanding DESC LIMIT 5;''"

definition label_12 :: string where
  "label_12 =
     ''12. Branch with highest account balance''"

definition sql_12 :: string where
  "sql_12 =
     ''SELECT b.Branch_Name,'' @ NL
     @ ''                      SUM(a.account_balance) AS total_balance'' @ NL
     @ ''               FROM accounts a'' @ NL
     @ ''               JOIN customers c ON a.customer_id = c.customer_id'' @ NL
     @ ''               JOIN branches b ON c.city = b.City'' @ NL
     @ ''               GROUP BY b.Branch_Name'' @ NL
     @ ''               ORDER BY total_balance DESC LIMIT 5;''"

definition label_13 :: string where
  "label_13 =
     ''13. Branch performance (customers, loans, transactions)''"

definition sql_13 :: string where
  "sql_13 =
     ''SELECT b.Branch_Name,'' @ NL
     @ ''                      COUNT(DISTINCT c.customer_id) AS total_customers,'' @ NL
     @ ''                      COUNT(DISTINCT l.Loan_ID) AS total_loans,'' @ NL
     @ ''                      SUM(t.amount) AS total_transaction_volume'' @ NL
     @ ''               FROM branches b'' @ NL
     @ ''               LEFT JOIN customers c ON c.city = b.City'' @ NL
     @ ''               LEFT JOIN loans l ON l.Branch = b.Branch_Name'' @ NL
     @ ''               LEFT JOIN transactions t ON t.customer_id = c.customer_id'' @ NL
     @ ''               GROUP BY b.Branch_Name;''"

definition label_14 :: string where
  "label_14 =
     ''14. Issue categories with longest resolution time''"

definition sql_14 :: string where
  "sql_14 =
     ''SELECT issue_category,'' @ NL
     @ ''                      AVG(JULIANDAY(date_closed) - JULIANDAY(date_opened)) AS avg_resolution_days'' @ NL
     @ ''               FROM support_tickets'' @ NL
     @ ''               WHERE date_opened IS NOT NULL'' @ NL
     @ ''               GROUP BY issue_category'' @ NL
     @ ''               ORDER BY avg_resolution_days DESC;''"

definition label_15 :: string where
  "label_15 =
     ''15. Agents resolving most critical tickets with rating '' @ [CHR 0xE2, CHR 0x89, CHR 0xA5] @ '' 4''"

definition sql_15 :: string where
  "sql_15 =
     ''SELECT Support_Agent,'' @ NL
     @ ''                      COUNT(*) AS resolved_critical_high_rating'' @ NL
     @ ''               FROM support_tickets'' @ NL
     @ ''               WHERE priority = '' @ SQ @ ''Critical'' @ SQ @ NL
     @ ''                 AND Customer_Rating >= 4'' @ NL
     @ ''                 AND status = '' @ SQ @ ''Resolved'' @ SQ @ NL
     @ ''               GROUP BY Support_Agent'' @ NL
     @ ''               ORDER BY resolved_critical_high_rating DESC;''"

definition label_16 :: string where
  "label_16 =
     ''16. How many customers exist in each city?''"

definition sql_16 :: string where
  "sql_16 =
     ''SELECT city, COUNT(*) AS total_customers'' @ NL
     @ ''            FROM customers'' @ NL
     @ ''            GROUP BY city;'' @ NL
     @ ''            ''"

definition label_17 :: string where
  "label_17 =
     ''17. What is the average account balance by account type?''"

definition sql_17 :: string where
  "sql_17 =
     ''SELECT account_type, AVG(account_balance) AS avg_balance'' @ NL
     @ ''            FROM customers c'' @ NL
     @ ''            JOIN accounts a ON c.customer_id = a.customer_id'' @ NL
     @ ''            GROUP BY account_type;''"

definition label_18 :: string where
  "label_18 =
     ''18. Who are the top 10 customers by total account balance?''"

definition sql_18 :: string where
  "sql_18 =
     ''SELECT c.name, SUM(a.account_balance) AS total_balance'' @ NL
     @ ''            FROM customers c'' @ NL
     @ ''            JOIN accounts a ON c.customer_id = a.customer_id'' @ NL
     @ ''            GROUP BY c.customer_id'' @ NL
     @ ''            ORDER BY total_balance DESC'' @ NL
     @ ''            LIMIT 10;''"

definition label_19 :: string where
  "label_19 =
     ''19. Which customers opened accounts in 2023 with balance > '' @ [CHR 0xE2, CHR 0x82, CHR 0xB9] @ ''1,00,000?''"

definition sql_19 :: string where
  "sql_19 =
     ''SELECT c.customer_id, c.name, a.account_balance'' @ NL
     @ ''            FROM customers c'' @ NL
     @ ''            JOIN accounts a ON c.customer_id = a.customer_id'' @ NL
     @ ''            WHERE strftime('' @ SQ @ ''%Y'' @ SQ @ '', c.join_date) = '' @ SQ @ ''2023'' @ SQ @ NL
     @ ''            AND a.account_balance > 100000;''"

definition label_20 :: string where
  "label_20 =
     ''20. Total transaction volume by transaction type''"

definition sql_20 :: string where
  "sql_20 =
     ''SELECT txn_type, SUM(amount) AS total_volume'' @ NL
     @ ''            FROM transactions'' @ NL
     @ ''            GROUP BY txn_type;''"

definition label_21 :: string where
  "label_21 =
     ''21.Support agents who resolved most critical tickets with rating '' @ [CHR 0xE2, CHR 0x89, CHR 0xA5] @ '' 4''"

definition sql_21 :: string where
  "sql_21 =
     ''SELECT '' @ NL
     @ ''            support_agent,'' @ NL
     @ ''            COUNT(*) AS resolved_tickets'' @ NL
     @ ''            FROM tickets'' @ NL
     @ ''            WHERE priority = '' @ SQ @ ''Critical'' @ SQ @ NL
     @ ''            AND customer_rating >= 4'' @ NL
     @ ''            AND status = '' @ SQ @ ''Resolved'' @ SQ @ NL
     @ ''            GROUP BY support_agent'' @ NL
     @ ''            ORDER BY resolved_tickets DESC;'' @ NL
     @ ''            ''"

definition label_22 :: string where
  "label_22 =
     ''22. Retrieve all customers who have not updated their account balance in the last 30 days.''"

definition sql_22 :: string where
  "sql_22 =
     ''SELECT *'' @ NL
     @ ''            FROM accounts'' @ NL
     @ ''            WHERE last_updated < DATE('' @ SQ @ ''now'' @ SQ @ '', '' @ SQ @ ''-30 days'' @ SQ @ '');'' @ NL
     @ ''            ''"

definition label_23 :: string where
  "label_23 =
     ''23. Find the average age of customers for each account type.''"

definition sql_23 :: string where
  "sql_23 =
     ''SELECT account_type, AVG(age) AS avg_age'' @ NL
     @ ''            FROM customers'' @ NL
     @ ''            GROUP BY account_type;'' @ NL
     @ ''            ''"

definition label_24 :: string where
  "label_24 =
     ''24. Count how many transactions happened on weekends.''"

definition sql_24 :: string where
  "sql_24 =
     ''SELECT COUNT(*) AS weekend_transactions'' @ NL
     @ ''            FROM transactions'' @ NL
     @ ''            WHERE strftime('' @ SQ @ ''%w'' @ SQ @ '', txn_time) IN ('' @ SQ @ ''0'' @ SQ @ '','' @ SQ @ ''6'' @ SQ @ '');'' @ NL
     @ ''            ''"

definition label_25 :: string where
  "label_25 =
     ''25. Find customers who made at least one transaction above '' @ [CHR 0xE2, CHR 0x82, CHR 0xB9] @ ''50,000.''"

definition sql_25 :: string where
  "sql_25 =
     ''SELECT DISTINCT customer_id'' @ NL
     @ ''            FROM transactions'' @ NL
     @ ''            WHERE amount > 50000;'' @ NL
     @ ''            ''"

definition label_26 :: string where
  "label_26 =
     ''26. Get the total number of failed transactions per customer.''"

definition sql_26 :: string where
  "sql_26 =
     ''SELECT customer_id, COUNT(*) AS failed_count'' @ NL
     @ ''            FROM transactions'' @ NL
     @ ''            WHERE status = '' @ SQ @ ''failed'' @ SQ @ NL
     @ ''            GROUP BY customer_id;'' @ NL
     @ ''            ''"

definition label_27 :: string where
  "label_27 =
     ''7. Find the 10 earliest registered customers.''"

definition sql_27 :: string where
  "sql_27 =
     ''SELECT *'' @ NL
     @ ''            FROM customers'' @ NL
     @ ''            ORDER BY join_date'' @ NL
     @ ''            LIMIT 10;'' @ NL
     @ ''            ''"

definition label_28 :: string where
  "label_28 =
     ''28. Retrieve customers who live in the same city as more than 2 other customers.''"

definition sql_28 :: string where
  "sql_28 =
     ''SELECT city, COUNT(*) AS num_customers'' @ NL
     @ ''            FROM customers'' @ NL
     @ ''            GROUP BY city'' @ NL
     @ ''            HAVING num_customers > 2;'' @ NL
     @ ''            ''"

definition label_29 :: string where
  "label_29 =
     ''29. Find the count of transactions by status (success/failed).''"

definition sql_29 :: string where
  "sql_29 =
     ''SELECT status, COUNT(*) AS count'' @ NL
     @ ''            FROM transactions'' @ NL
     @ ''            GROUP BY status;'' @ NL
     @ ''            ''"

definition label_30 :: string where
  "label_30 =
     ''30. Show customers whose name starts with '' @ SQ @ ''A'' @ SQ @ ''.''"

definition sql_30 :: string where
  "sql_30 =
     ''SELECT *'' @ NL
     @ ''            FROM customers'' @ NL
     @ ''            WHERE name LIKE '' @ SQ @ ''A%'' @ SQ @ '';'' @ NL
     @ ''            ''"

text \<open>The entries of the dictionary display, in the order they are written.\<close>

definition queries_display :: "(string \<times> string) list" where
  "queries_display =
     [(label_01, sql_01),
      (label_02, sql_02),
      (label_03, sql_03),
      (label_04, sql_04),
      (label_05, sql_05),
      (label_06, sql_06),
      (label_07, sql_07),
      (label_08, sql_08),
      (label_09, sql_09),
      (label_10, sql_10),
      (label_11, sql_11),
      (label_12, sql_12),
      (label_13, sql_13),
      (label_14, sql_14),
      (label_15, sql_15),
      (label_16, sql_16),
      (label_17, sql_17),
      (label_18, sql_18),
      (label_19, sql_19),
      (label_20, sql_20),
      (label_21, sql_21),
      (label_22, sql_22),
      (label_23, sql_23),
      (label_24, sql_24),
      (label_25, sql_25),
      (label_26, sql_26),
      (label_27, sql_27),
      (label_28, sql_28),
      (label_29, sql_29),
      (label_30, sql_30)]"

text \<open>
  A Python dictionary keeps its keys in insertion order; storing under a key that is
  already there replaces the value and keeps the key's place. A dictionary display stores
  its entries from left to right.
\<close>

fun dict_set :: "('k \<times> 'v) list \<Rightarrow> 'k \<Rightarrow> 'v \<Rightarrow> ('k \<times> 'v) list" where
  "dict_set [] k v = [(k, v)]"
| "dict_set ((k', v') # d) k v =
     (if k' = k then (k', v) # d else (k', v') # dict_set d k v)"

definition dict_display :: "('k \<times> 'v) list \<Rightarrow> ('k \<times> 'v) list" where
  "dict_display entries = foldl (\<lambda>d (k, v). dict_set d k v) [] entries"

definition queries :: "(string \<times> string) list" where
  "queries = dict_display queries_display"

text \<open>\<^verbatim>\<open>list(queries.keys())\<close>, the options of the select box.\<close>

definition dict_keys :: "('k \<times> 'v) list \<Rightarrow> 'k list" where
  "dict_keys d = map fst d"

text \<open>\<^verbatim>\<open>queries[selected]\<close>: the subscript raises \<^verbatim>\<open>KeyError\<close> for a key that is absent.\<close>

definition dict_getitem :: "(string \<times> 'v) list \<Rightarrow> string \<Rightarrow> exn + 'v" where
  "dict_getitem d k = (case map_of d k of None \<Rightarrow> Inl (KeyError k) | Some v \<Rightarrow> Inr v)"


definition stmt_21 :: query where
  "stmt_21 =
     Select_agg_desc ''tickets''
       (Some (And (Cmp Eq (Col ''priority'') (Lit (TextV ''Critical'')))
                  (And (Cmp Ge (Col ''customer_rating'') (Lit (IntV 4)))
                       (Cmp Eq (Col ''status'') (Lit (TextV ''Resolved''))))))
       ''support_agent'' Count_star ''resolved_tickets''"







subsection \<open>The layout of the database\<close>

text \<open>
  Modelled from the spec: the schema of the database file \<^verbatim>\<open>customer_data\<close>, which is
  created outside the program. The customers table has the seven columns
  \<^verbatim>\<open>customers(customer_id PK, name, gender, age, city, account_type, join_date)\<close>, in the
  order the positional \<^verbatim>\<open>INSERT\<close> of the Create action fills them.
\<close>

definition customers_columns :: "string list" where
  "customers_columns =
     [''customer_id'', ''name'', ''gender'', ''age'', ''city'', ''account_type'', ''join_date'']"

definition customers_table_ok :: "store \<Rightarrow> bool" where
  "customers_table_ok db =
     (case db ''customers'' of
        None \<Rightarrow> False
      | Some tb \<Rightarrow> tbl_columns tb = customers_columns
                   \<and> tbl_primary_key tb = Some ''customer_id'')"

definition customer_rows :: "store \<Rightarrow> sqlval list list" where
  "customer_rows db = (case db ''customers'' of None \<Rightarrow> [] | Some tb \<Rightarrow> tbl_rows tb)"

definition customer_ids :: "store \<Rightarrow> sqlval list" where
  "customer_ids db = map (\<lambda>r. cell r 0) (customer_rows db)"

subsection \<open>Example databases\<close>

definition plain_table :: "string list \<Rightarrow> sqlval list list \<Rightarrow> table" where
  "plain_table cols rs = \<lparr>tbl_columns = cols, tbl_primary_key = None, tbl_rows = rs\<rparr>"

definition example_customers :: table where
  "example_customers =
     \<lparr>tbl_columns = customers_columns,
      tbl_primary_key = Some ''customer_id'',
      tbl_rows = [[TextV ''C001'', TextV ''Asha'', TextV ''F'', IntV 34, TextV ''Pune'',
                   TextV ''Savings'', TextV ''2024-05-01'']]\<rparr>"

text \<open>
  The three transactions of the specification's example, in the layout the specification
  documents, \<^verbatim>\<open>transactions(txn_id, customer_id, txn_type, amount, status, txn_time)\<close>,
  and one account in \<^verbatim>\<open>accounts(account_id, customer_id, account_balance, last_updated)\<close>.
  The other tables are empty; their columns are names the specification or the catalog's
  statements use for them.
\<close>

definition example_transactions :: table where
  "example_transactions =
     plain_table [''txn_id'', ''customer_id'', ''txn_type'', ''amount'', ''status'', ''txn_time'']
       [[IntV 1, TextV ''C001'', TextV ''deposit'', IntV 100, TextV ''success'',
         TextV ''2025-11-03''],
        [IntV 2, TextV ''C001'', TextV ''deposit'', IntV 50, TextV ''success'',
         TextV ''2025-11-20''],
        [IntV 3, TextV ''C001'', TextV ''withdrawal'', IntV 30, TextV ''success'',
         TextV ''2025-12-02'']]"

definition example_accounts :: table where
  "example_accounts =
     plain_table [''account_id'', ''customer_id'', ''account_balance'', ''last_updated'']
       [[IntV 1, TextV ''C001'', IntV 2500, TextV ''2026-01-01'']]"

definition example_db :: store where
  "example_db =
     [''customers'' \<mapsto> example_customers,
      ''accounts'' \<mapsto> example_accounts,
      ''transactions'' \<mapsto> example_transactions,
      ''loans'' \<mapsto> plain_table [''Loan_ID'', ''Customer_ID'', ''Loan_Type'', ''Loan_Amount'',
                                    ''Interest_Rate'', ''Loan_Status'', ''Branch''] [],
      ''credit_cards'' \<mapsto> plain_table [''Customer_ID''] [],
      ''branches'' \<mapsto> plain_table [''Branch_Name'', ''City''] [],
      ''support_tickets'' \<mapsto> plain_table [''issue_category'', ''date_opened'', ''date_closed'',
                                              ''Support_Agent'', ''priority'',
                                              ''Customer_Rating'', ''status''] []]"

text \<open>
  \<^verbatim>\<open>sqlite3.connect\<close> creates the file when it is missing: a database with no table.
\<close>

definition fresh_db :: store where
  "fresh_db = Map.empty"

text \<open>Two days on the store's clock: 2026-01-15 and 2026-03-01.\<close>

definition day_2026_01_15 :: clock where
  "day_2026_01_15 = 20468"

definition day_2026_03_01 :: clock where
  "day_2026_03_01 = 20513"

section \<open>Properties\<close>

subsection \<open>The three writes on the documented customers table\<close>

lemma field_customer_id: "field customers_columns r ''customer_id'' = cell r 0"
  by (simp add: field_def customers_columns_def)

lemma col_index_city: "col_index customers_columns ''city'' = Some 4"
  by (simp add: customers_columns_def)

lemma length_customers_columns:
  "length customers_columns = Suc (Suc (Suc (Suc (Suc (Suc (Suc 0))))))"
  by (simp add: customers_columns_def)

lemma customers_columns_mem:
  "''customer_id'' \<in> set customers_columns"
  "''city'' \<in> set customers_columns"
  by (simp_all add: customers_columns_def)

lemma holds_customer_id:
  "holds clk ps customers_columns (Cmp Eq (Col ''customer_id'') (Param i))
     = (\<lambda>r. cell ps i \<noteq> Null \<and> cell r 0 = cell ps i)"
  by (rule ext) (auto simp: field_customer_id)

lemma customers_table_okD:
  "customers_table_ok db \<Longrightarrow>
     \<exists>tb. db ''customers'' = Some tb \<and> tbl_columns tb = customers_columns
          \<and> tbl_primary_key tb = Some ''customer_id''"
  by (auto simp: customers_table_ok_def split: option.splits)

lemma execute_insert_customer:
  assumes "db ''customers'' = Some tb" "tbl_columns tb = customers_columns"
    "tbl_primary_key tb = Some ''customer_id''"
  shows "execute clk db insert_customer_sql
           [TextV cid, TextV name, TextV gender, IntV age, TextV city, TextV account_type]
         = (if TextV cid \<in> set (map (\<lambda>r. cell r 0) (tbl_rows tb))
            then Inl (unique_failed ''customers'' ''customer_id'')
            else Inr (1, db(''customers'' \<mapsto> tb\<lparr>tbl_rows := tbl_rows tb @
                   [[TextV cid, TextV name, TextV gender, IntV age, TextV city,
                     TextV account_type, TextV (iso_date clk)]]\<rparr>)))"
proof -
  have keys: "TextV cid \<in> set (key_values tb ''customer_id'' (tbl_rows tb))
              \<longleftrightarrow> TextV cid \<in> set (map (\<lambda>r. cell r 0) (tbl_rows tb))"
    by (auto simp: key_values_def assms(2) field_customer_id)
  show ?thesis
    using keys
    by (simp add: insert_customer_sql_def assms length_customers_columns field_customer_id
          eval_nat_numeral)
qed

lemma execute_update_customer:
  assumes "db ''customers'' = Some tb" "tbl_columns tb = customers_columns"
    "tbl_primary_key tb = Some ''customer_id''"
  shows "execute clk db update_customer_sql [TextV new_city, TextV cid]
         = Inr (length (filter (\<lambda>r. cell r 0 = TextV cid) (tbl_rows tb)),
                db(''customers'' \<mapsto> tb\<lparr>tbl_rows :=
                   map (\<lambda>r. if cell r 0 = TextV cid then r[4 := TextV new_city] else r)
                       (tbl_rows tb)\<rparr>))"
  by (simp add: update_customer_sql_def assms holds_customer_id col_index_city
        customers_columns_mem del: holds.simps cong: if_cong)

lemma execute_delete_customer:
  assumes "db ''customers'' = Some tb" "tbl_columns tb = customers_columns"
  shows "execute clk db delete_customer_sql [TextV cid]
         = Inr (length (filter (\<lambda>r. cell r 0 = TextV cid) (tbl_rows tb)),
                db(''customers'' \<mapsto> tb\<lparr>tbl_rows :=
                   filter (\<lambda>r. cell r 0 \<noteq> TextV cid) (tbl_rows tb)\<rparr>))"
  by (simp add: delete_customer_sql_def assms holds_customer_id
        customers_columns_mem del: holds.simps)

lemma execute_no_table:
  "db ''customers'' = None \<Longrightarrow> execute clk db insert_customer_sql ps = Inl (no_such_table ''customers'')"
  "db ''customers'' = None \<Longrightarrow> execute clk db update_customer_sql ps = Inl (no_such_table ''customers'')"
  "db ''customers'' = None \<Longrightarrow> execute clk db delete_customer_sql ps = Inl (no_such_table ''customers'')"
  by (simp_all add: insert_customer_sql_def update_customer_sql_def delete_customer_sql_def)

lemma create_customer_eq:
  assumes "db ''customers'' = Some tb" "tbl_columns tb = customers_columns"
    "tbl_primary_key tb = Some ''customer_id''"
  shows "create_customer clk db cid name gender age city account_type
         = (if TextV cid \<in> set (customer_ids db)
            then \<lparr>escaped = None,
                  shown = [St_error ''UNIQUE constraint failed: customers.customer_id''],
                  database = db\<rparr>
            else \<lparr>escaped = None, shown = [St_success ''Customer added successfully!''],
                  database = db(''customers'' \<mapsto> tb\<lparr>tbl_rows := tbl_rows tb @
                     [[TextV cid, TextV name, TextV gender, IntV age, TextV city,
                       TextV account_type, TextV (iso_date clk)]]\<rparr>)\<rparr>)"
  by (simp add: create_customer_def execute_insert_customer[of db tb] assms customer_ids_def
        customer_rows_def assms(1) unique_failed_def commit_def)

lemma update_customer_eq:
  assumes "db ''customers'' = Some tb" "tbl_columns tb = customers_columns"
    "tbl_primary_key tb = Some ''customer_id''"
  shows "update_customer clk db cid new_city
         = \<lparr>escaped = None, shown = [St_success ''Customer updated!''],
            database = db(''customers'' \<mapsto> tb\<lparr>tbl_rows :=
               map (\<lambda>r. if cell r 0 = TextV cid then r[4 := TextV new_city] else r)
                   (tbl_rows tb)\<rparr>)\<rparr>"
  by (simp add: update_customer_def execute_update_customer[of db tb] assms commit_def)

lemma delete_customer_eq:
  assumes "db ''customers'' = Some tb" "tbl_columns tb = customers_columns"
  shows "delete_customer clk db cid
         = \<lparr>escaped = None, shown = [St_success ''Customer deleted!''],
            database = db(''customers'' \<mapsto> tb\<lparr>tbl_rows :=
               filter (\<lambda>r. cell r 0 \<noteq> TextV cid) (tbl_rows tb)\<rparr>)\<rparr>"
  by (simp add: delete_customer_def execute_delete_customer[of db tb] assms commit_def)

lemma no_match_map:
  "x \<notin> set (map (\<lambda>r. cell r 0) rs) \<Longrightarrow> map (\<lambda>r. if cell r 0 = x then f r else r) rs = rs"
  by (induction rs) auto

lemma no_match_filter:
  "x \<notin> set (map (\<lambda>r. cell r 0) rs) \<Longrightarrow> filter (\<lambda>r. cell r 0 \<noteq> x) rs = rs"
  by (induction rs) auto

lemma no_match_filter_eq:
  "x \<notin> set (map (\<lambda>r. cell r 0) rs) \<Longrightarrow> filter (\<lambda>r. cell r 0 = x) rs = []"
  by (induction rs) auto

lemma example_db_customers: "example_db ''customers'' = Some example_customers"
  by (simp add: example_db_def)

lemma example_db_ok: "customers_table_ok example_db"
  by (simp add: customers_table_ok_def example_db_customers example_customers_def)

lemma example_customer_ids: "customer_ids example_db = [TextV ''C001'']"
  by (simp add: customer_ids_def customer_rows_def example_db_customers example_customers_def)

lemma fresh_db_customers: "fresh_db ''customers'' = None"
  by (simp add: fresh_db_def)

lemma iso_date_examples:
  "iso_date day_2026_01_15 = ''2026-01-15''"
  "iso_date (day_2026_01_15 - 30) = ''2025-12-16''"
  "iso_date day_2026_03_01 = ''2026-03-01''"
  "iso_date (day_2026_03_01 - 30) = ''2026-01-30''"
  unfolding day_2026_01_15_def day_2026_03_01_def by code_simp+

lemma passes_Some: "passes clk ps cols (Some c) = holds clk ps cols c"
  by (rule ext) simp

lemma passes_None: "passes clk ps cols None = (\<lambda>r. True)"
  by (rule ext) simp

lemma read_customer_by_id:
  assumes "db ''customers'' = Some tb" "tbl_columns tb = customers_columns"
  shows "read_sql_query clk db select_customer_by_id_sql (Some [TextV cid])
         = Inr \<lparr>df_columns = customers_columns,
                 df_rows = filter (\<lambda>r. cell r 0 = TextV cid) (tbl_rows tb)\<rparr>"
  by (simp add: select_customer_by_id_sql_def assms holds_customer_id customers_columns_mem
        passes_Some del: holds.simps passes.simps)

lemma read_all_customers:
  assumes "db ''customers'' = Some tb"
  shows "read_sql_query clk db select_customers_sql None
         = Inr \<lparr>df_columns = tbl_columns tb, df_rows = tbl_rows tb\<rparr>"
  by (simp add: select_customers_sql_def assms passes_None del: passes.simps)

lemma example_customers_columns: "tbl_columns example_customers = customers_columns"
  by (simp add: example_customers_def)

lemma example_customers_key: "tbl_primary_key example_customers = Some ''customer_id''"
  by (simp add: example_customers_def)

lemma update_customer_report:
  assumes "customers_table_ok db"
  shows "escaped (update_customer clk db cid new_city) = None"
    and "shown (update_customer clk db cid new_city) = [St_success ''Customer updated!'']"
proof -
  from assms obtain tb where tb: "db ''customers'' = Some tb"
    "tbl_columns tb = customers_columns" "tbl_primary_key tb = Some ''customer_id''"
    using customers_table_okD by blast
  show "escaped (update_customer clk db cid new_city) = None"
    and "shown (update_customer clk db cid new_city) = [St_success ''Customer updated!'']"
    by (simp_all add: update_customer_eq[where db=db and tb=tb, OF tb])
qed

lemma delete_customer_report:
  assumes "customers_table_ok db"
  shows "escaped (delete_customer clk db cid) = None"
    and "shown (delete_customer clk db cid) = [St_success ''Customer deleted!'']"
    and "customers_table_ok (database (delete_customer clk db cid))"
proof -
  from assms obtain tb where tb: "db ''customers'' = Some tb"
    "tbl_columns tb = customers_columns" "tbl_primary_key tb = Some ''customer_id''"
    using customers_table_okD by blast
  show "escaped (delete_customer clk db cid) = None"
    and "shown (delete_customer clk db cid) = [St_success ''Customer deleted!'']"
    and "customers_table_ok (database (delete_customer clk db cid))"
    by (simp_all add: delete_customer_eq[where db=db and tb=tb, OF tb(1,2)]
          customers_table_ok_def tb)
qed

lemma count_list_distinct_member:
  "distinct xs \<Longrightarrow> x \<in> set xs \<Longrightarrow> count_list xs x = 1"
  by (induction xs) (auto simp: count_list_0_iff)

lemma customer_rows_upd:
  "customer_rows (db(''customers'' \<mapsto> tb)) = tbl_rows tb"
  by (simp add: customer_rows_def)

lemma example_customer_rows:
  "customer_rows example_db
     = [[TextV ''C001'', TextV ''Asha'', TextV ''F'', IntV 34, TextV ''Pune'',
         TextV ''Savings'', TextV ''2024-05-01'']]"
  by (simp add: customer_rows_def example_db_customers example_customers_def)

lemma example_customers_rows:
  "tbl_rows example_customers
     = [[TextV ''C001'', TextV ''Asha'', TextV ''F'', IntV 34, TextV ''Pune'',
         TextV ''Savings'', TextV ''2024-05-01'']]"
  by (simp add: example_customers_def)

lemmas example_customers_facts =
  example_db_customers example_customers_columns example_customers_key

subsection \<open>The dictionary of the catalog\<close>

lemma dict_set_new: "k \<notin> set (map fst d) \<Longrightarrow> dict_set d k v = d @ [(k, v)]"
  by (induction d) auto

lemma foldl_dict_set_distinct:
  "distinct (map fst (acc @ xs)) \<Longrightarrow>
     foldl (\<lambda>d (k, v). dict_set d k v) acc xs = acc @ xs"
proof (induction xs arbitrary: acc)
  case Nil
  then show ?case by simp
next
  case (Cons x xs)
  obtain k v where x: "x = (k, v)" by (cases x)
  from Cons.prems have new: "k \<notin> set (map fst acc)"
    by (auto simp: x)
  from Cons.prems have "distinct (map fst ((acc @ [(k, v)]) @ xs))"
    by (simp add: x)
  then have "foldl (\<lambda>d (k, v). dict_set d k v) (acc @ [(k, v)]) xs = (acc @ [(k, v)]) @ xs"
    by (rule Cons.IH)
  then show ?case
    by (simp add: x dict_set_new[OF new])
qed

lemma dict_display_distinct: "distinct (map fst xs) \<Longrightarrow> dict_display xs = xs"
  using foldl_dict_set_distinct[of "[]" xs] by (simp add: dict_display_def)

lemma queries_display_keys:
  "map fst queries_display = [label_01, label_02, label_03, label_04, label_05, label_06,
      label_07, label_08, label_09, label_10, label_11, label_12, label_13, label_14, label_15,
      label_16, label_17, label_18, label_19, label_20, label_21, label_22, label_23, label_24,
      label_25, label_26, label_27, label_28, label_29, label_30]"
  by (simp add: queries_display_def)

lemma labels_distinct:
  "distinct [label_01, label_02, label_03, label_04, label_05, label_06, label_07, label_08,
      label_09, label_10, label_11, label_12, label_13, label_14, label_15, label_16, label_17,
      label_18, label_19, label_20, label_21, label_22, label_23, label_24, label_25, label_26,
      label_27, label_28, label_29, label_30]"
  unfolding label_01_def label_02_def label_03_def label_04_def label_05_def label_06_def
      label_07_def label_08_def label_09_def label_10_def label_11_def label_12_def label_13_def
      label_14_def label_15_def label_16_def label_17_def label_18_def label_19_def label_20_def
      label_21_def label_22_def label_23_def label_24_def label_25_def label_26_def label_27_def
      label_28_def label_29_def label_30_def by simp

lemma queries_eq: "queries = queries_display"
  unfolding queries_def
  by (rule dict_display_distinct) (simp only: queries_display_keys labels_distinct)

lemma statements_nonempty: "\<forall>(k, v) \<in> set queries_display. v \<noteq> []"
  by (simp add: queries_display_def sql_01_def sql_02_def sql_03_def sql_04_def sql_05_def
      sql_06_def sql_07_def sql_08_def sql_09_def sql_10_def sql_11_def sql_12_def sql_13_def
      sql_14_def sql_15_def sql_16_def sql_17_def sql_18_def sql_19_def sql_20_def sql_21_def
      sql_22_def sql_23_def sql_24_def sql_25_def sql_26_def sql_27_def sql_28_def sql_29_def
      sql_30_def)

subsection \<open>Reads and the clock\<close>










subsection \<open>Claims about failures of the driver\<close>

text \<open>
  C1. The claim: every public operation (a run of a catalog or ad-hoc statement, create,
  update and delete of a customer) catches a failure of the store's driver at its own
  boundary, and no raw driver exception leaves it. The Create action and \<open>run_query\<close> do
  so; the Update and the Delete action have no handler. On a database without a customers
  table (the file \<^verbatim>\<open>sqlite3.connect\<close> creates when it is missing) the driver's
  \<^verbatim>\<open>OperationalError\<close> leaves both of them, while Create shows it as an error.
\<close>

theorem update_and_delete_let_driver_failure_escape:
  "escaped (update_customer clk fresh_db cid new_city)
     = Some (OperationalError ''no such table: customers'')
   \<and> escaped (delete_customer clk fresh_db cid)
     = Some (OperationalError ''no such table: customers'')
   \<and> create_customer clk fresh_db cid name gender age city account_type
     = \<lparr>escaped = None, shown = [St_error ''no such table: customers''],
        database = fresh_db\<rparr>"
  by (simp add: update_customer_def delete_customer_def create_customer_def
        execute_no_table fresh_db_customers no_such_table_def)

text \<open>
  C2. For every statement and every parameter binding, whatever the driver does with them,
  \<open>run_query\<close> lets no exception out. When the driver fails, it shows one error that carries
  the driver's message and returns the frame with no column and no row; when the driver
  succeeds, it shows nothing and returns the driver's frame, in particular a frame with
  its columns and no row when nothing matched.
\<close>

theorem run_query_never_raises:
  "q_escaped (run_query read_sql query params) = None
   \<and> (\<forall>e. read_sql query (if truthy params then params else None) = Inl e \<longrightarrow>
         run_query read_sql query params
           = \<lparr>q_escaped = None, q_shown = [St_error (''SQL Error: '' @ str_exn e)],
              q_frame = \<lparr>df_columns = [], df_rows = []\<rparr>\<rparr>)
   \<and> (\<forall>df. read_sql query (if truthy params then params else None) = Inr df \<longrightarrow>
         run_query read_sql query params
           = \<lparr>q_escaped = None, q_shown = [], q_frame = df\<rparr>)
   \<and> (\<forall>df. read_sql query (if truthy params then params else None) = Inr df
            \<and> df_rows df = [] \<longrightarrow>
         q_shown (run_query read_sql query params) = []
         \<and> df_rows (q_frame (run_query read_sql query params)) = []
         \<and> df_columns (q_frame (run_query read_sql query params)) = df_columns df)"
  by (cases "truthy params")
     (auto simp: run_query_def empty_dataframe_def split: sum.splits)

theorem run_query_never_raises_witness:
  "run_query (read_sql_query day_2026_01_15 example_db) stmt_21 None
     = \<lparr>q_escaped = None, q_shown = [St_error ''SQL Error: no such table: tickets''],
        q_frame = \<lparr>df_columns = [], df_rows = []\<rparr>\<rparr>
   \<and> run_query (read_sql_query day_2026_01_15 example_db) select_customer_by_id_sql
         (Some [TextV ''C999''])
     = \<lparr>q_escaped = None, q_shown = [],
        q_frame = \<lparr>df_columns = customers_columns, df_rows = []\<rparr>\<rparr>"
proof -
  have failing: "read_sql_query day_2026_01_15 example_db stmt_21 None
                   = Inl (OperationalError ''no such table: tickets'')"
    by (simp add: stmt_21_def example_db_def no_such_table_def)
  have empty: "read_sql_query day_2026_01_15 example_db select_customer_by_id_sql
                 (Some [TextV ''C999''])
               = Inr \<lparr>df_columns = customers_columns, df_rows = []\<rparr>"
    by (simp add: read_customer_by_id[of example_db example_customers] example_db_customers
          example_customers_columns)
       (simp add: example_customers_def)
  show ?thesis
    using run_query_never_raises[of "read_sql_query day_2026_01_15 example_db" stmt_21 None]
      run_query_never_raises[of "read_sql_query day_2026_01_15 example_db"
        select_customer_by_id_sql "Some [TextV ''C999'']"]
      failing empty
    by (simp add: truthy_def)
qed

subsection \<open>Claims about the customer writes\<close>

text \<open>
  C3, as the code has it. The claim asks for a result that carries the number of rows
  affected; the Update and Delete actions drop the cursor and show the same message
  whatever the statement matched. What holds on a database with the documented customers
  table: both actions end without an exception and show their one success message; when no
  row has the identifier the database is left as it was; after a delete no row with the
  identifier remains, and a second delete of the same identifier shows the same message
  and changes nothing.
\<close>

theorem update_delete_report_no_row_count:
  assumes "customers_table_ok db"
  shows "escaped (update_customer clk db cid new_city) = None
       \<and> shown (update_customer clk db cid new_city) = [St_success ''Customer updated!'']
       \<and> (TextV cid \<notin> set (customer_ids db) \<longrightarrow>
            database (update_customer clk db cid new_city) = db)
       \<and> escaped (delete_customer clk db cid) = None
       \<and> shown (delete_customer clk db cid) = [St_success ''Customer deleted!'']
       \<and> (TextV cid \<notin> set (customer_ids db) \<longrightarrow> database (delete_customer clk db cid) = db)
       \<and> TextV cid \<notin> set (customer_ids (database (delete_customer clk db cid)))
       \<and> delete_customer clk' (database (delete_customer clk db cid)) cid
          = \<lparr>escaped = None, shown = [St_success ''Customer deleted!''],
             database = database (delete_customer clk db cid)\<rparr>"
proof -
  from assms obtain tb where tb: "db ''customers'' = Some tb"
    "tbl_columns tb = customers_columns" "tbl_primary_key tb = Some ''customer_id''"
    using customers_table_okD by blast
  let ?kept = "filter (\<lambda>r. cell r 0 \<noteq> TextV cid) (tbl_rows tb)"
  let ?tb' = "tb\<lparr>tbl_rows := ?kept\<rparr>"
  let ?db' = "db(''customers'' \<mapsto> ?tb')"
  have ids: "customer_ids db = map (\<lambda>r. cell r 0) (tbl_rows tb)"
    by (simp add: customer_ids_def customer_rows_def tb(1))
  have upd: "update_customer clk db cid new_city
         = \<lparr>escaped = None, shown = [St_success ''Customer updated!''],
            database = db(''customers'' \<mapsto> tb\<lparr>tbl_rows :=
               map (\<lambda>r. if cell r 0 = TextV cid then r[4 := TextV new_city] else r)
                   (tbl_rows tb)\<rparr>)\<rparr>"
    by (rule update_customer_eq[where db=db and tb=tb, OF tb])
  have del: "delete_customer clk db cid
         = \<lparr>escaped = None, shown = [St_success ''Customer deleted!''], database = ?db'\<rparr>"
    by (rule delete_customer_eq[where db=db and tb=tb, OF tb(1,2)])
  have tb': "?db' ''customers'' = Some ?tb'" "tbl_columns ?tb' = customers_columns"
    by (simp_all add: tb(2))
  have gone: "TextV cid \<notin> set (map (\<lambda>r. cell r 0) ?kept)"
    by auto
  have del2: "delete_customer clk' ?db' cid
         = \<lparr>escaped = None, shown = [St_success ''Customer deleted!''],
            database = ?db'(''customers'' \<mapsto> ?tb'\<lparr>tbl_rows :=
               filter (\<lambda>r. cell r 0 \<noteq> TextV cid) (tbl_rows ?tb')\<rparr>)\<rparr>"
    by (rule delete_customer_eq[where db="?db'" and tb="?tb'", OF tb'])
  have again: "?db'(''customers'' \<mapsto> ?tb'\<lparr>tbl_rows :=
               filter (\<lambda>r. cell r 0 \<noteq> TextV cid) (tbl_rows ?tb')\<rparr>) = ?db'"
    by simp
  have c3: "TextV cid \<notin> set (customer_ids db) \<longrightarrow>
            database (update_customer clk db cid new_city) = db"
    by (simp add: upd ids no_match_map tb(1) map_upd_triv)
  have c6: "TextV cid \<notin> set (customer_ids db) \<longrightarrow> database (delete_customer clk db cid) = db"
    by (simp add: del ids no_match_filter tb(1) map_upd_triv)
  have c7: "TextV cid \<notin> set (customer_ids (database (delete_customer clk db cid)))"
    using gone by (simp add: del customer_ids_def customer_rows_def)
  have c8: "delete_customer clk' (database (delete_customer clk db cid)) cid
          = \<lparr>escaped = None, shown = [St_success ''Customer deleted!''],
             database = database (delete_customer clk db cid)\<rparr>"
    using del2 again by (simp add: del)
  show ?thesis
    using c3 c6 c7 c8 by (simp add: upd del)
qed


text \<open>
  At the example database the update of the missing identifier \<open>C999\<close> is reported exactly
  like the update of the present identifier \<open>C001\<close>, though only the second changes a row;
  the second delete of \<open>C001\<close> is reported exactly like the first.
\<close>

theorem update_no_op_reported_like_a_change:
  "shown (update_customer day_2026_01_15 example_db ''C999'' ''Delhi'')
     = shown (update_customer day_2026_01_15 example_db ''C001'' ''Delhi'')
   \<and> escaped (update_customer day_2026_01_15 example_db ''C999'' ''Delhi'')
     = escaped (update_customer day_2026_01_15 example_db ''C001'' ''Delhi'')
   \<and> customer_rows (database (update_customer day_2026_01_15 example_db ''C999'' ''Delhi''))
     = customer_rows example_db
   \<and> customer_rows (database (update_customer day_2026_01_15 example_db ''C001'' ''Delhi''))
     \<noteq> customer_rows example_db
   \<and> shown (delete_customer day_2026_01_15
              (database (delete_customer day_2026_01_15 example_db ''C001'')) ''C001'')
     = shown (delete_customer day_2026_01_15 example_db ''C001'')
   \<and> escaped (delete_customer day_2026_01_15
              (database (delete_customer day_2026_01_15 example_db ''C001'')) ''C001'')
     = escaped (delete_customer day_2026_01_15 example_db ''C001'')"
proof -
  have upd: "\<And>cid. update_customer day_2026_01_15 example_db cid ''Delhi''
      = \<lparr>escaped = None, shown = [St_success ''Customer updated!''],
         database = example_db(''customers'' \<mapsto> example_customers\<lparr>tbl_rows :=
               map (\<lambda>r. if cell r 0 = TextV cid then r[4 := TextV ''Delhi''] else r)
                   (tbl_rows example_customers)\<rparr>)\<rparr>"
    by (rule update_customer_eq[where db=example_db and tb=example_customers,
          OF example_customers_facts])
  have first: "customers_table_ok (database (delete_customer day_2026_01_15 example_db ''C001''))"
    by (rule delete_customer_report(3)[OF example_db_ok])
  show ?thesis
    by (simp add: delete_customer_report(1,2)[OF first]
          delete_customer_report(1,2)[OF example_db_ok])
       (simp add: upd customer_rows_upd example_customer_rows example_customers_rows)
qed

theorem update_delete_report_no_row_count_witness:
  "shown (update_customer day_2026_01_15 example_db ''C999'' ''Delhi'')
     = [St_success ''Customer updated!'']
   \<and> database (update_customer day_2026_01_15 example_db ''C999'' ''Delhi'') = example_db
   \<and> shown (delete_customer day_2026_01_15 example_db ''C999'')
     = [St_success ''Customer deleted!'']
   \<and> database (delete_customer day_2026_01_15 example_db ''C999'') = example_db
   \<and> TextV ''C001''
       \<notin> set (customer_ids (database (delete_customer day_2026_01_15 example_db ''C001'')))
   \<and> delete_customer day_2026_03_01
        (database (delete_customer day_2026_01_15 example_db ''C001'')) ''C001''
     = \<lparr>escaped = None, shown = [St_success ''Customer deleted!''],
        database = database (delete_customer day_2026_01_15 example_db ''C001'')\<rparr>"
  using update_delete_report_no_row_count[OF example_db_ok,
          of day_2026_01_15 "''C999''" "''Delhi''" day_2026_03_01]
        update_delete_report_no_row_count[OF example_db_ok,
          of day_2026_01_15 "''C001''" "''Delhi''" day_2026_03_01]
  by (simp add: example_customer_ids)

text \<open>
  C4, as the code has it. The claim says that create rejects an empty identifier, name,
  gender, city or account type and an age outside 1 to 120. The Create action has no check
  of its own: the age comes from a number input bounded by \<^verbatim>\<open>min_value=1\<close> and
  \<^verbatim>\<open>max_value=120\<close>, and the five texts go to the store as typed. With the age in that
  range, the action never lets an exception out, inserts the row as given (empty texts
  included) whenever the identifier is not yet present, and the only rejection on the
  documented table is the store's, for an identifier already present.
\<close>

theorem create_submits_unvalidated:
  assumes "customers_table_ok db" and "1 \<le> age" and "age \<le> 120"
  shows "escaped (create_customer clk db cid name gender age city account_type) = None
       \<and> (TextV cid \<notin> set (customer_ids db) \<longrightarrow>
            shown (create_customer clk db cid name gender age city account_type)
              = [St_success ''Customer added successfully!'']
            \<and> customer_rows (database (create_customer clk db cid name gender age city
                                         account_type))
              = customer_rows db
                @ [[TextV cid, TextV name, TextV gender, IntV age, TextV city,
                    TextV account_type, TextV (iso_date clk)]])
       \<and> (shown (create_customer clk db cid name gender age city account_type)
              \<noteq> [St_success ''Customer added successfully!''] \<longrightarrow>
            TextV cid \<in> set (customer_ids db))"
proof -
  from assms(1) obtain tb where tb: "db ''customers'' = Some tb"
    "tbl_columns tb = customers_columns" "tbl_primary_key tb = Some ''customer_id''"
    using customers_table_okD by blast
  show ?thesis
    by (simp add: create_customer_eq[where db=db and tb=tb, OF tb] customer_rows_upd)
       (simp add: customer_rows_def tb(1))
qed

text \<open>At the example database a customer whose five texts are all empty is added.\<close>

theorem create_accepts_empty_strings:
  "shown (create_customer day_2026_01_15 example_db '''' '''' '''' 30 '''' '''')
     = [St_success ''Customer added successfully!'']
   \<and> customer_rows (database (create_customer day_2026_01_15 example_db '''' '''' '''' 30 '''' ''''))
     = customer_rows example_db
       @ [[TextV '''', TextV '''', TextV '''', IntV 30, TextV '''', TextV '''',
           TextV ''2026-01-15'']]"
  by (simp add: create_customer_eq[where db=example_db and tb=example_customers,
          OF example_customers_facts] example_customer_ids customer_rows_upd
        example_customer_rows example_customers_rows iso_date_examples)

theorem create_submits_unvalidated_witness:
  "shown (create_customer day_2026_03_01 example_db ''C002'' '''' ''F'' 1 ''Pune'' '''')
     = [St_success ''Customer added successfully!'']
   \<and> customer_rows (database (create_customer day_2026_03_01 example_db ''C002'' '''' ''F'' 1
                                ''Pune'' ''''))
     = customer_rows example_db
       @ [[TextV ''C002'', TextV '''', TextV ''F'', IntV 1, TextV ''Pune'', TextV '''',
           TextV ''2026-03-01'']]"
  using create_submits_unvalidated[OF example_db_ok, of 1 day_2026_03_01 "''C002''" "''''"
          "''F''" "''Pune''" "''''"]
  by (simp add: example_customer_ids iso_date_examples)

text \<open>
  C5. On a database with the documented customers table in which the identifier is
  already present (once, as the primary key requires), the insert raises the driver's
  \<^verbatim>\<open>IntegrityError\<close> for the violated uniqueness constraint, the Create action shows it,
  the database is exactly what it was, and the identifier still occurs once.
\<close>

theorem create_duplicate_id_rejected:
  assumes "customers_table_ok db" and "TextV cid \<in> set (customer_ids db)"
    and "distinct (customer_ids db)"
  shows "execute clk db insert_customer_sql
           [TextV cid, TextV name, TextV gender, IntV age, TextV city, TextV account_type]
         = Inl (IntegrityError ''UNIQUE constraint failed: customers.customer_id'')
       \<and> create_customer clk db cid name gender age city account_type
         = \<lparr>escaped = None,
            shown = [St_error ''UNIQUE constraint failed: customers.customer_id''],
            database = db\<rparr>
       \<and> count_list
            (customer_ids (database (create_customer clk db cid name gender age city
                                       account_type)))
            (TextV cid) = 1"
proof -
  from assms(1) obtain tb where tb: "db ''customers'' = Some tb"
    "tbl_columns tb = customers_columns" "tbl_primary_key tb = Some ''customer_id''"
    using customers_table_okD by blast
  have ids: "customer_ids db = map (\<lambda>r. cell r 0) (tbl_rows tb)"
    by (simp add: customer_ids_def customer_rows_def tb(1))
  have ex: "execute clk db insert_customer_sql
           [TextV cid, TextV name, TextV gender, IntV age, TextV city, TextV account_type]
         = Inl (IntegrityError ''UNIQUE constraint failed: customers.customer_id'')"
    using assms(2)
    by (simp add: execute_insert_customer[where db=db and tb=tb, OF tb] ids
          unique_failed_def)
  have cr: "create_customer clk db cid name gender age city account_type
         = \<lparr>escaped = None,
            shown = [St_error ''UNIQUE constraint failed: customers.customer_id''],
            database = db\<rparr>"
    using assms(2) by (simp add: create_customer_eq[where db=db and tb=tb, OF tb])
  show ?thesis
    using ex cr count_list_distinct_member[OF assms(3) assms(2)] by simp
qed

theorem create_duplicate_id_rejected_witness:
  "create_customer day_2026_01_15 example_db ''C001'' ''Ravi'' ''M'' 41 ''Delhi'' ''Current''
     = \<lparr>escaped = None,
        shown = [St_error ''UNIQUE constraint failed: customers.customer_id''],
        database = example_db\<rparr>
   \<and> count_list
        (customer_ids (database (create_customer day_2026_01_15 example_db ''C001'' ''Ravi''
                                   ''M'' 41 ''Delhi'' ''Current'')))
        (TextV ''C001'') = 1"
  using create_duplicate_id_rejected[OF example_db_ok, of "''C001''" day_2026_01_15
          "''Ravi''" "''M''" 41 "''Delhi''" "''Current''"]
  by (simp add: example_customer_ids)

text \<open>
  C6. After a Create that reported success on a database with the documented customers
  table, reading the customers with that identifier, at any later moment, returns exactly
  one row: the six inputs followed by the date the store's clock showed when the insert
  ran. The date is \<^verbatim>\<open>DATE('now')\<close> of the statement; no input of the action reaches it.
  The same row is the only one with that identifier in what the Read action shows.
\<close>

theorem create_then_read_by_id:
  assumes "customers_table_ok db"
    and "shown (create_customer clk db cid name gender age city account_type)
           = [St_success ''Customer added successfully!'']"
  shows "run_query
           (read_sql_query clk'
              (database (create_customer clk db cid name gender age city account_type)))
           select_customer_by_id_sql (Some [TextV cid])
         = \<lparr>q_escaped = None, q_shown = [],
            q_frame = \<lparr>df_columns = customers_columns,
                       df_rows = [[TextV cid, TextV name, TextV gender, IntV age, TextV city,
                                   TextV account_type, TextV (iso_date clk)]]\<rparr>\<rparr>
       \<and> filter (\<lambda>r. cell r 0 = TextV cid)
            (df_rows (q_frame (read_customers clk'
               (database (create_customer clk db cid name gender age city account_type)))))
         = [[TextV cid, TextV name, TextV gender, IntV age, TextV city, TextV account_type,
             TextV (iso_date clk)]]"
proof -
  from assms(1) obtain tb where tb: "db ''customers'' = Some tb"
    "tbl_columns tb = customers_columns" "tbl_primary_key tb = Some ''customer_id''"
    using customers_table_okD by blast
  let ?row = "[TextV cid, TextV name, TextV gender, IntV age, TextV city, TextV account_type,
               TextV (iso_date clk)]"
  let ?tb' = "tb\<lparr>tbl_rows := tbl_rows tb @ [?row]\<rparr>"
  let ?db' = "db(''customers'' \<mapsto> ?tb')"
  have new: "TextV cid \<notin> set (customer_ids db)"
    using assms(2) by (auto simp: create_customer_eq[where db=db and tb=tb, OF tb])
  then have fresh: "TextV cid \<notin> set (map (\<lambda>r. cell r 0) (tbl_rows tb))"
    by (simp add: customer_ids_def customer_rows_def tb(1))
  have after: "database (create_customer clk db cid name gender age city account_type) = ?db'"
    using new by (simp add: create_customer_eq[where db=db and tb=tb, OF tb])
  have tb': "?db' ''customers'' = Some ?tb'" "tbl_columns ?tb' = customers_columns"
    by (simp_all add: tb(2))
  have matching: "filter (\<lambda>r. cell r 0 = TextV cid) (tbl_rows ?tb') = [?row]"
    using no_match_filter_eq[OF fresh] by simp
  have by_id: "read_sql_query clk' ?db' select_customer_by_id_sql (Some [TextV cid])
                 = Inr \<lparr>df_columns = customers_columns, df_rows = [?row]\<rparr>"
    using read_customer_by_id[where db="?db'" and tb="?tb'", OF tb'] matching by simp
  have every: "read_sql_query clk' ?db' select_customers_sql None
                 = Inr \<lparr>df_columns = tbl_columns ?tb', df_rows = tbl_rows ?tb'\<rparr>"
    by (rule read_all_customers[where db="?db'" and tb="?tb'", OF tb'(1)])
  show ?thesis
    using matching
    by (simp add: after run_query_def truthy_def by_id read_customers_def every)
qed

theorem create_then_read_by_id_witness:
  "run_query
     (read_sql_query day_2026_03_01
        (database (create_customer day_2026_01_15 example_db ''C002'' ''Ravi'' ''M'' 41
                     ''Delhi'' ''Current'')))
     select_customer_by_id_sql (Some [TextV ''C002''])
   = \<lparr>q_escaped = None, q_shown = [],
      q_frame = \<lparr>df_columns = customers_columns,
                 df_rows = [[TextV ''C002'', TextV ''Ravi'', TextV ''M'', IntV 41,
                             TextV ''Delhi'', TextV ''Current'', TextV ''2026-01-15'']]\<rparr>\<rparr>"
proof -
  have ok: "shown (create_customer day_2026_01_15 example_db ''C002'' ''Ravi'' ''M'' 41
                     ''Delhi'' ''Current'')
              = [St_success ''Customer added successfully!'']"
    by (simp add: create_customer_eq[where db=example_db and tb=example_customers,
          OF example_customers_facts] example_customer_ids)
  show ?thesis
    using create_then_read_by_id[OF example_db_ok ok, of day_2026_03_01]
    by (simp add: iso_date_examples)
qed

subsection \<open>Claims about the catalog and its statements\<close>

text \<open>
  C8. Looking up a label of the catalog gives the text of its statement, which is never
  empty; looking up anything else raises \<^verbatim>\<open>KeyError\<close>, Python's signal that the key is
  not found. The options of the select box are the thirty labels in the order the
  dictionary display writes them, none of them twice. The catalog is the constant
  \<open>queries\<close>: no operation of the program takes it or returns it, so none changes it.
\<close>

theorem catalog_lookup:
  "(k \<in> set (dict_keys queries) \<longrightarrow> (\<exists>s. dict_getitem queries k =
      Inr s \<and> s \<noteq> []))
   \<and> (k \<notin> set (dict_keys queries) \<longrightarrow> dict_getitem queries k = Inl
       (KeyError k))
   \<and> dict_keys queries = [label_01, label_02, label_03, label_04, label_05, label_06,
       label_07, label_08, label_09, label_10, label_11, label_12, label_13, label_14, label_15,
       label_16, label_17, label_18, label_19, label_20, label_21, label_22, label_23, label_24,
       label_25, label_26, label_27, label_28, label_29, label_30]
   \<and> distinct (dict_keys queries)"
proof -
  have keys: "dict_keys queries = [label_01, label_02, label_03, label_04, label_05,
      label_06, label_07, label_08, label_09, label_10, label_11, label_12, label_13, label_14,
      label_15, label_16, label_17, label_18, label_19, label_20, label_21, label_22, label_23,
      label_24, label_25, label_26, label_27, label_28, label_29, label_30]"
    by (simp add: dict_keys_def queries_eq queries_display_keys)
  have found: "\<exists>s. dict_getitem queries k = Inr s \<and> s \<noteq> []"
    if "k \<in> set (dict_keys queries)"
  proof -
    from that have "k \<in> fst ` set queries_display"
      by (simp add: dict_keys_def queries_eq)
    then obtain s where s: "map_of queries_display k = Some s"
      by (metis domD dom_map_of_conv_image_fst)
    then have "(k, s) \<in> set queries_display"
      by (rule map_of_SomeD)
    with statements_nonempty have "s \<noteq> []"
      by blast
    with s show ?thesis
      by (simp add: dict_getitem_def queries_eq)
  qed
  have missing: "dict_getitem queries k = Inl (KeyError k)"
    if "k \<notin> set (dict_keys queries)"
  proof -
    from that have "map_of queries_display k = None"
      by (simp add: dict_keys_def queries_eq map_of_eq_None_iff)
    then show ?thesis
      by (simp add: dict_getitem_def queries_eq)
  qed
  show ?thesis
    using found missing keys labels_distinct by simp
qed

theorem catalog_lookup_witness:
  "(\<exists>s. dict_getitem queries label_05 = Inr s \<and> s \<noteq> [])
   \<and> dict_getitem queries ''31. No such entry'' = Inl (KeyError ''31. No such entry'')"
proof -
  have keys: "dict_keys queries = [label_01, label_02, label_03, label_04, label_05,
      label_06, label_07, label_08, label_09, label_10, label_11, label_12, label_13, label_14,
      label_15, label_16, label_17, label_18, label_19, label_20, label_21, label_22, label_23,
      label_24, label_25, label_26, label_27, label_28, label_29, label_30]"
    by (simp add: dict_keys_def queries_eq queries_display_keys)
  have present: "label_05 \<in> set (dict_keys queries)"
    by (simp add: keys)
  have absent: "''31. No such entry'' \<notin> set (dict_keys queries)"
    unfolding keys label_01_def label_02_def label_03_def label_04_def label_05_def
        label_06_def label_07_def label_08_def label_09_def label_10_def label_11_def
        label_12_def label_13_def label_14_def label_15_def label_16_def label_17_def
        label_18_def label_19_def label_20_def label_21_def label_22_def label_23_def
        label_24_def label_25_def label_26_def label_27_def label_28_def label_29_def
        label_30_def by simp
  show ?thesis
    using catalog_lookup[of label_05] catalog_lookup[of "''31. No such entry''"]
      present absent
    by blast
qed









end
